theory Spec2Isabelle
  imports Main "HOL-Library.Sublist"
begin

section \<open>Python strings and values\<close>

text \<open>
  A Python \<open>str\<close> is a sequence of Unicode code points, and \<open>len\<close>, \<open>strip\<close>, \<open>split\<close>
  and slicing all work on code points. A string is therefore modelled as a list of code
  points (natural numbers); \<open>lit\<close> turns an ASCII literal into such a list.
\<close>

type_synonym pystr = "nat list"

abbreviation lit :: "string \<Rightarrow> pystr" where
  "lit \<equiv> map of_char"

text \<open>
  The characters that \<open>str.strip()\<close> and \<open>str.split()\<close> (both called without argument)
  treat as whitespace: tab to carriage return, the four separators U+001C..U+001F, space,
  U+0085, U+00A0, U+1680, U+2000..U+200A, U+2028, U+2029, U+202F, U+205F and U+3000.
\<close>

definition py_isspace :: "nat \<Rightarrow> bool" where
  "py_isspace c \<longleftrightarrow>
     (9 \<le> c \<and> c \<le> 13) \<or> (28 \<le> c \<and> c \<le> 32) \<or> c = 133 \<or> c = 160 \<or> c = 5760 \<or>
     (8192 \<le> c \<and> c \<le> 8202) \<or> c = 8232 \<or> c = 8233 \<or> c = 8239 \<or> c = 8287 \<or> c = 12288"

text \<open>\<open>s.strip()\<close>: leading and trailing whitespace removed.\<close>

definition py_strip :: "pystr \<Rightarrow> pystr" where
  "py_strip s = rev (dropWhile py_isspace (rev (dropWhile py_isspace s)))"

text \<open>\<open>s.rstrip(chars)\<close>: trailing characters that occur in \<open>chars\<close> removed.\<close>

definition py_rstrip :: "pystr \<Rightarrow> pystr \<Rightarrow> pystr" where
  "py_rstrip chars s = rev (dropWhile (\<lambda>c. c \<in> set chars) (rev s))"

text \<open>
  \<open>s.split()\<close>: the maximal runs of non-whitespace characters, in order. The first
  argument of \<open>split_from\<close> is the word read so far.
\<close>

fun split_from :: "pystr \<Rightarrow> pystr \<Rightarrow> pystr list" where
  "split_from cur [] = (if cur = [] then [] else [cur])"
| "split_from cur (c # cs) =
     (if py_isspace c then (if cur = [] then split_from [] cs else cur # split_from [] cs)
      else split_from (cur @ [c]) cs)"

definition py_split :: "pystr \<Rightarrow> pystr list" where
  "py_split s = split_from [] s"

text \<open>\<open>sep.join(parts)\<close>.\<close>

fun py_join :: "pystr \<Rightarrow> pystr list \<Rightarrow> pystr" where
  "py_join sep [] = []"
| "py_join sep [p] = p"
| "py_join sep (p # q # ps) = p @ sep @ py_join sep (q # ps)"

text \<open>
  The values that can reach \<open>replace_text\<close> as \<open>new_text\<close>: a string, or something that
  is not a string. \<open>py_truthy\<close> is Python's truth value, \<open>isinstance_str\<close> is
  \<open>isinstance(v, str)\<close>.
\<close>

datatype pyval = PyStr pystr | PyNone | PyBool bool | PyInt int | PyList "pyval list"

fun py_truthy :: "pyval \<Rightarrow> bool" where
  "py_truthy (PyStr t) = (t \<noteq> [])"
| "py_truthy PyNone = False"
| "py_truthy (PyBool b) = b"
| "py_truthy (PyInt i) = (i \<noteq> 0)"
| "py_truthy (PyList vs) = (vs \<noteq> [])"

fun isinstance_str :: "pyval \<Rightarrow> bool" where
  "isinstance_str (PyStr t) = True"
| "isinstance_str v = False"

text \<open>An f-string formats \<open>custom_change\<close>, which is a string or \<open>None\<close>.\<close>

fun py_format :: "pystr option \<Rightarrow> pystr" where
  "py_format None = lit ''None''"
| "py_format (Some t) = t"

section \<open>The application and its environment\<close>

text \<open>
  The two providers the application constructs. Their code is not part of the application
  class; a call of one of their methods is recorded as an event.
\<close>

datatype provider = Gemini15FlashProvider | OpenAICompatibleProvider

text \<open>
  What the application does to the outside, in order: calls of the provider, emissions of
  \<open>show_message_signal\<close>, the copy and paste that the foreground application performs
  when it receives the simulated Ctrl+C and Ctrl+V (the paste carries the text on the
  clipboard at that moment), and the popup window created with the captured selection.
\<close>

datatype event =
    Cancel provider
  | GetResponse provider pystr "pystr option"
  | ShowMessage pystr pystr
  | CtrlC
  | CtrlV pystr
  | Popup pystr

text \<open>
  The state: the two attributes of \<open>WritingToolApp\<close> that the modelled methods read and
  write (\<open>output_queue\<close>, and \<open>current_provider\<close>, where \<open>None\<close> is Python's \<open>None\<close>), the
  system clipboard, the text selected in the foreground application, the events so far, and
  the schedule of failures of the calls into \<open>pyperclip\<close>, \<open>pynput\<close> and the provider's
  \<open>get_response\<close>: each such call takes the head of \<open>failures\<close>, and raises an exception with
  that message when the head is \<open>Some message\<close>; a call that raises has no other effect.
  An empty schedule lets every call succeed. Logging and the 0.2 s sleeps are not modelled.
\<close>

record app =
  output_queue :: pystr
  current_provider :: "provider option"
  clipboard :: pystr
  selection :: pystr
  trace :: "event list"
  failures :: "pystr option list"

text \<open>A computation that may raise: \<open>Inl\<close> carries the message of the exception.\<close>

type_synonym 'a io = "app \<Rightarrow> (pystr + 'a) \<times> app"

definition bind :: "'a io \<Rightarrow> ('a \<Rightarrow> 'b io) \<Rightarrow> 'b io" where
  "bind m k s = (case m s of (Inl e, s') \<Rightarrow> (Inl e, s') | (Inr a, s') \<Rightarrow> k a s')"

definition extern :: "(app \<Rightarrow> 'a \<times> app) \<Rightarrow> 'a io" where
  "extern f s =
     (case failures s of
        [] \<Rightarrow> (case f s of (a, s') \<Rightarrow> (Inr a, s'))
      | None # fs \<Rightarrow> (case f (s\<lparr>failures := fs\<rparr>) of (a, s') \<Rightarrow> (Inr a, s'))
      | Some e # fs \<Rightarrow> (Inl e, s\<lparr>failures := fs\<rparr>))"

definition emit :: "event \<Rightarrow> app \<Rightarrow> app" where
  "emit ev s = s\<lparr>trace := trace s @ [ev]\<rparr>"

text \<open>\<open>pyperclip.paste()\<close> and \<open>pyperclip.copy(text)\<close>.\<close>

definition pyperclip_paste :: "pystr io" where
  "pyperclip_paste = extern (\<lambda>s. (clipboard s, s))"

definition pyperclip_copy :: "pystr \<Rightarrow> unit io" where
  "pyperclip_copy text = extern (\<lambda>s. ((), s\<lparr>clipboard := text\<rparr>))"

text \<open>
  \<open>pykeyboard.Controller()\<close> and its \<open>press\<close> and \<open>release\<close>. The source presses a letter
  only between the press and the release of Ctrl, so the foreground application takes
  \<open>c\<close> as copy (an application with a non-empty selection puts it on the clipboard) and
  \<open>v\<close> as paste (it inserts the text on the clipboard).
\<close>

datatype key = Ctrl | Letter nat

definition Controller :: "unit io" where
  "Controller = extern (\<lambda>s. ((), s))"

definition foreground :: "key \<Rightarrow> app \<Rightarrow> app" where
  "foreground k s =
     (if k = Letter 99 then
        emit CtrlC (s\<lparr>clipboard := (if selection s = [] then clipboard s else selection s)\<rparr>)
      else if k = Letter 118 then emit (CtrlV (clipboard s)) s
      else s)"

definition kbrd_press :: "key \<Rightarrow> unit io" where
  "kbrd_press k = extern (\<lambda>s. ((), foreground k s))"

definition kbrd_release :: "key \<Rightarrow> unit io" where
  "kbrd_release k = extern (\<lambda>s. ((), s))"

section \<open>Capturing the selection\<close>

definition press_ctrl_c :: "unit io" where
  "press_ctrl_c =
     bind (kbrd_press Ctrl) (\<lambda>_.
     bind (kbrd_press (Letter 99)) (\<lambda>_.
     bind (kbrd_release (Letter 99)) (\<lambda>_.
     kbrd_release Ctrl)))"

text \<open>\<open>clear_clipboard\<close> logs an exception of \<open>pyperclip.copy('')\<close> and goes on.\<close>

definition clear_clipboard :: "unit io" where
  "clear_clipboard s = (case pyperclip_copy [] s of (r, s') \<Rightarrow> (Inr (), s'))"

text \<open>
  \<open>get_selected_text\<close> (lines 216 to 250 of \<open>WritingToolApp.py\<close>) has no exception
  handler: an exception of a call leaves it.
\<close>

definition get_selected_text :: "pystr io" where
  "get_selected_text =
     bind pyperclip_paste (\<lambda>clipboard_backup.
     bind clear_clipboard (\<lambda>_.
     bind Controller (\<lambda>_.
     bind press_ctrl_c (\<lambda>_.
     bind pyperclip_paste (\<lambda>selected_text.
     bind (pyperclip_copy clipboard_backup) (\<lambda>_.
     (\<lambda>s. (Inr selected_text, s))))))))"

text \<open>
  \<open>_show_popup\<close> (lines 163 to 214): the selection is captured, then the popup window is
  created with it.
  An exception of \<open>get_selected_text\<close> leaves the slot before the window is created. The
  placement of the window on the screen is not modelled.
\<close>

definition show_popup :: "app \<Rightarrow> app" where
  "show_popup s =
     (case get_selected_text s of
        (Inl e, s') \<Rightarrow> s'
      | (Inr selected_text, s') \<Rightarrow> emit (Popup selected_text) s')"

text \<open>
  \<open>on_hotkey_pressed\<close> (lines 150 to 161): with a provider, its request is cancelled and
  the output queue is emptied. The last statement posts \<open>_show_popup\<close> to the event loop (a queued
  connection), which runs it once \<open>on_hotkey_pressed\<close> has returned.
\<close>

definition on_hotkey_pressed :: "app \<Rightarrow> app" where
  "on_hotkey_pressed s =
     show_popup
       (case current_provider s of
          Some p \<Rightarrow> (emit (Cancel p) s)\<lparr>output_queue := []\<rparr>
        | None \<Rightarrow> s)"

section \<open>Starting a request\<close>

definition option_prompts :: "(pystr \<times> pystr \<times> pystr) list" where
  "option_prompts = [
    (lit ''Relecture'',
      (lit ''Relis et corrige ceci :'' @ [10, 10],
       lit ''Tu es un relecteur pr'' @ [233] @ lit ''cis. Corrige les erreurs, fond comme forme, grammaticales, orthographiques et typographiques '' @ [233] @ lit ''galement. Renvoie uniquement le texte corrig'' @ [233] @ lit '', en pr'' @ [233] @ lit ''servant le style et la structure d'' @ [39] @ lit ''origine. En cas de texte incompr'' @ [233] @ lit ''hensible, renvoie '' @ [39] @ lit ''ERROR_TEXT_INCOMPATIBLE_WITH_REQUEST'' @ [39] @ lit ''. Pas de commentaires additionnels.'')),
    (lit ''R'' @ [233, 233] @ lit ''criture'',
      (lit ''R'' @ [233, 233] @ lit ''cris ceci :'' @ [10, 10],
       lit ''Tu es un assistant de r'' @ [233] @ lit ''daction. Am'' @ [233] @ lit ''liore la formulation du texte fourni. Renvoie uniquement le texte r'' @ [233, 233] @ lit ''crit, sans commentaires. En cas de texte incompr'' @ [233] @ lit ''hensible, renvoie '' @ [39] @ lit ''ERROR_TEXT_INCOMPATIBLE_WITH_REQUEST'' @ [39] @ lit ''.'')),
    (lit ''Amical'',
      (lit ''Rends ceci plus amical :'' @ [10, 10],
       lit ''Tu es un assistant de r'' @ [233] @ lit ''daction. R'' @ [233, 233] @ lit ''cris le texte pour le rendre plus chaleureux et accessible. Renvoie uniquement le texte modifi'' @ [233] @ lit '', sans commentaires. En cas de texte incompr'' @ [233] @ lit ''hensible, renvoie '' @ [39] @ lit ''ERROR_TEXT_INCOMPATIBLE_WITH_REQUEST'' @ [39] @ lit ''.'')),
    (lit ''Professionnel'',
      (lit ''Rends ceci plus professionnel :'' @ [10, 10],
       lit ''Tu es un assistant de r'' @ [233] @ lit ''daction. R'' @ [233, 233] @ lit ''cris le texte dans un style plus formel et professionnel. Renvoie uniquement le texte modifi'' @ [233] @ lit '', sans commentaires. En cas de texte incompr'' @ [233] @ lit ''hensible, renvoie '' @ [39] @ lit ''ERROR_TEXT_INCOMPATIBLE_WITH_REQUEST'' @ [39] @ lit ''.'')),
    (lit ''Concis'',
      (lit ''Rends ceci plus concis :'' @ [10, 10],
       lit ''Tu es un assistant de r'' @ [233] @ lit ''daction. R'' @ [233, 233] @ lit ''cris le texte de fa'' @ [231] @ lit ''on plus concise sans perdre l'' @ [39] @ lit ''information essentielle. Renvoie uniquement la version condens'' @ [233] @ lit ''e, sans commentaires. En cas de texte incompr'' @ [233] @ lit ''hensible, renvoie '' @ [39] @ lit ''ERROR_TEXT_INCOMPATIBLE_WITH_REQUEST'' @ [39] @ lit ''.'')),
    (lit ''R'' @ [233] @ lit ''sum'' @ [233],
      (lit ''R'' @ [233] @ lit ''sume ceci :'' @ [10, 10],
       lit ''Tu es un assistant de synth'' @ [232] @ lit ''se. Fournis un r'' @ [233] @ lit ''sum'' @ [233] @ lit '' clair et concis du texte. Renvoie uniquement le r'' @ [233] @ lit ''sum'' @ [233] @ lit '', sans commentaires. En cas de texte incompr'' @ [233] @ lit ''hensible, renvoie '' @ [39] @ lit ''ERROR_TEXT_INCOMPATIBLE_WITH_REQUEST'' @ [39] @ lit ''.'')),
    (lit ''Points-Cl'' @ [233] @ lit ''s'',
      (lit ''Extrais les points cl'' @ [233] @ lit ''s de ceci :'' @ [10, 10],
       lit ''Tu es un assistant d'' @ [39] @ lit ''analyse. Identifie et liste uniquement les points essentiels du texte, sans commentaires. En cas de texte incompr'' @ [233] @ lit ''hensible, renvoie '' @ [39] @ lit ''ERROR_TEXT_INCOMPATIBLE_WITH_REQUEST'' @ [39] @ lit ''.'')),
    (lit ''Tableau'',
      (lit ''Convertis ceci en tableau :'' @ [10, 10],
       lit ''Tu es un assistant de conversion. Transforme le texte en tableau structur'' @ [233] @ lit ''. Renvoie uniquement le tableau format'' @ [233] @ lit '', sans commentaires. En cas de texte incompatible, renvoie '' @ [39] @ lit ''ERROR_TEXT_INCOMPATIBLE_WITH_REQUEST'' @ [39] @ lit ''.'')),
    (lit ''Personnalis'' @ [233],
      (lit ''Applique le changement suivant '' @ [224] @ lit '' ce texte :'' @ [10, 10],
       lit ''Tu es un assistant de r'' @ [233] @ lit ''daction polyvalent. Applique pr'' @ [233] @ lit ''cis'' @ [233] @ lit ''ment la modification demand'' @ [233] @ lit ''e au texte fourni. Renvoie uniquement le contenu modifi'' @ [233] @ lit '', sans commentaires. En cas de texte incompatible, renvoie '' @ [39] @ lit ''ERROR_TEXT_INCOMPATIBLE_WITH_REQUEST'' @ [39] @ lit ''.''))]"

text \<open>
  \<open>current_provider.get_response(system_instruction, prompt)\<close>: an attribute error when
  \<open>current_provider\<close> is \<open>None\<close>, otherwise a call of the provider, which may raise.
\<close>

definition get_response :: "pystr \<Rightarrow> pystr option \<Rightarrow> unit io" where
  "get_response system_instruction prompt s =
     (case current_provider s of
        None \<Rightarrow> (Inl ([39] @ lit ''NoneType'' @ [39] @ lit '' object has no attribute '' @
                       [39] @ lit ''get_response'' @ [39]), s)
      | Some p \<Rightarrow> extern (\<lambda>s. ((), emit (GetResponse p system_instruction prompt) s)) s)"

text \<open>
  \<open>process_option_thread\<close> (lines 269 to 335), with the table \<open>option_prompts\<close> above
  as the source has it. The statements after the choice of the prompt (the reset of
  the output queue and the call of the provider) are \<open>start_request\<close>, with the handler
  of the enclosing \<open>try\<close>.
\<close>

definition start_request :: "pystr \<Rightarrow> pystr option \<Rightarrow> app \<Rightarrow> app" where
  "start_request system_instruction prompt s =
     (case get_response system_instruction prompt (s\<lparr>output_queue := []\<rparr>) of
        (Inr u, s') \<Rightarrow> s'
      | (Inl e, s') \<Rightarrow> emit (ShowMessage (lit ''Error'') (lit ''An error occurred: '' @ e)) s')"

definition process_option_thread :: "pystr \<Rightarrow> pystr \<Rightarrow> pystr option \<Rightarrow> app \<Rightarrow> app" where
  "process_option_thread option selected_text custom_change s =
     (if py_strip selected_text = [] then
        (if option = lit ''Custom'' then
           start_request
             (lit ''You are a helpful assistant to the user. The user cannot follow-up with you after your single response to them, so do not ask them questions.'')
             custom_change s
         else emit (ShowMessage (lit ''Error'') (lit ''Please select text to use this option.'')) s)
      else
        (case (case map_of option_prompts option of Some pr \<Rightarrow> pr | None \<Rightarrow> ([], []))
         of (prompt_prefix, system_instruction) \<Rightarrow>
           (if option = lit ''Custom'' then
              start_request system_instruction
                (Some (prompt_prefix @ lit ''Described change: '' @ py_format custom_change @
                       [10, 10] @ lit ''Text: '' @ selected_text)) s
            else start_request system_instruction (Some (prompt_prefix @ selected_text)) s)))"

section \<open>Replacing the text\<close>

definition error_message :: pystr where
  "error_message = lit ''ERROR_TEXT_INCOMPATIBLE_WITH_REQUEST''"

definition press_ctrl_v :: "unit io" where
  "press_ctrl_v =
     bind (kbrd_press Ctrl) (\<lambda>_.
     bind (kbrd_press (Letter 118)) (\<lambda>_.
     bind (kbrd_release (Letter 118)) (\<lambda>_.
     kbrd_release Ctrl)))"

text \<open>The body of the \<open>try\<close> of \<open>replace_text\<close>.\<close>

definition paste_output :: "unit io" where
  "paste_output =
     bind pyperclip_paste (\<lambda>clipboard_backup.
     bind (\<lambda>s. pyperclip_copy (py_rstrip [10] (output_queue s)) s) (\<lambda>_.
     bind Controller (\<lambda>_.
     bind press_ctrl_v (\<lambda>_.
     bind (pyperclip_copy clipboard_backup) (\<lambda>_.
     (\<lambda>s. (Inr (), s\<lparr>output_queue := []\<rparr>)))))))"

text \<open>
  \<open>replace_text\<close> (lines 344 to 401). The handler of the \<open>try\<close> logs the exception, so
  the state in which the exception was raised is the result.
\<close>

definition replace_text :: "pyval \<Rightarrow> app \<Rightarrow> app" where
  "replace_text new_text s =
     (case new_text of
        PyStr t \<Rightarrow>
          (if py_truthy new_text \<and> isinstance_str new_text then
             (let s1 = s\<lparr>output_queue := output_queue s @ t\<rparr>;
                  current_output = py_strip (output_queue s1)
              in if current_output = error_message then
                   emit (ShowMessage (lit ''Error'')
                           (lit ''The text is incompatible with the requested change.'')) s1
                 else if length current_output \<le> length error_message \<and>
                         (let clean_current = py_join [] (py_split current_output);
                              clean_error = py_join [] (py_split error_message)
                          in clean_current = take (length clean_current) clean_error)
                 then s1
                 else snd (paste_output s1))
           else s)
      | _ \<Rightarrow> s)"

text \<open>The chunks of a stream, delivered to \<open>replace_text\<close> one after the other.\<close>

definition deliver :: "pystr list \<Rightarrow> app \<Rightarrow> app" where
  "deliver chunks s = foldl (\<lambda>s c. replace_text (PyStr c) s) s chunks"

section \<open>The decision rule, chunk by chunk\<close>

text \<open>
  The rule that the statement about the chunks after a paste compares \<open>replace_text\<close> with,
  written on the texts alone. \<open>since_paste q chunks\<close> takes the text \<open>q\<close> accumulated since
  the last paste and the chunks that arrive after it, and gives the text accumulated since
  the last paste at the end together with the events on the way. An empty chunk does
  nothing. Every other chunk is appended to the accumulated text; when that text, stripped,
  is the error message, it is reported and kept; when it is, at a length of at most that of
  the error message, a prefix of the error message once whitespace is removed, it is kept
  without an event; otherwise all of it, without trailing newlines, is pasted and the
  accumulated text starts again from nothing.
\<close>

fun since_paste :: "pystr \<Rightarrow> pystr list \<Rightarrow> pystr \<times> event list" where
  "since_paste q [] = (q, [])"
| "since_paste q (c # cs) =
     (if c = [] then since_paste q cs
      else if py_strip (q @ c) = error_message then
        apsnd (Cons (ShowMessage (lit ''Error'')
                       (lit ''The text is incompatible with the requested change.'')))
          (since_paste (q @ c) cs)
      else if length (py_strip (q @ c)) \<le> length error_message \<and>
              prefix (filter (\<lambda>x. \<not> py_isspace x) (py_strip (q @ c))) error_message
      then since_paste (q @ c) cs
      else apsnd (Cons (CtrlV (py_rstrip [10] (q @ c)))) (since_paste [] cs))"

section \<open>Facts about the string operations\<close>

lemma py_join_empty: "py_join [] ps = concat ps"
  by (induction "[]::nat list" ps rule: py_join.induct) auto

lemma split_from_concat:
  "concat (split_from cur s) = cur @ filter (\<lambda>c. \<not> py_isspace c) s"
  by (induction s arbitrary: cur) auto

lemma collapse_filter: "py_join [] (py_split s) = filter (\<lambda>c. \<not> py_isspace c) s"
  by (simp add: py_join_empty py_split_def split_from_concat)

lemma error_message_length: "length error_message = 36"
  by (simp add: error_message_def)

lemma error_message_nonspace: "c \<in> set error_message \<Longrightarrow> \<not> py_isspace c"
  by (auto simp add: error_message_def py_isspace_def)

lemma error_message_nonempty: "error_message \<noteq> []"
  by (simp add: error_message_def)

lemma filter_error_message: "filter (\<lambda>c. \<not> py_isspace c) error_message = error_message"
  by (simp add: error_message_nonspace)

lemma take_length_prefix: "xs = take (length xs) ys \<longleftrightarrow> prefix xs ys"
  by (metis append_eq_conv_conj prefix_def)

text \<open>Stripping on the right, for any set of characters.\<close>

lemma rstrip_keep: "xs = [] \<or> \<not> P (last xs) \<Longrightarrow> rev (dropWhile P (rev xs)) = xs"
  by (cases xs rule: rev_cases) auto

lemma rstrip_drop: "\<forall>c\<in>set b. P c \<Longrightarrow> rev (dropWhile P (rev (xs @ b))) = rev (dropWhile P (rev xs))"
proof -
  assume "\<forall>c\<in>set b. P c"
  then have "dropWhile P (rev b @ rev xs) = dropWhile P (rev xs)"
    by (intro dropWhile_append2) simp
  then show ?thesis by simp
qed

lemma rstrip_append: "\<exists>c\<in>set ys. \<not> P c \<Longrightarrow>
   rev (dropWhile P (rev (xs @ ys))) = xs @ rev (dropWhile P (rev ys))"
  by (auto simp add: dropWhile_append1[of _ "rev ys"])

lemma rstrip_split: "\<exists>b. xs = rev (dropWhile P (rev xs)) @ b \<and> (\<forall>c\<in>set b. P c)"
proof -
  have "rev xs = takeWhile P (rev xs) @ dropWhile P (rev xs)" by simp
  then have "xs = rev (dropWhile P (rev xs)) @ rev (takeWhile P (rev xs))"
    by (metis rev_append rev_rev_ident)
  moreover have "\<forall>c\<in>set (rev (takeWhile P (rev xs))). P c"
    by (auto dest: set_takeWhileD)
  ultimately show ?thesis by blast
qed

lemma dropWhile_all: "\<forall>c\<in>set q. P c \<Longrightarrow> dropWhile P q = []"
  by (induction q) auto

lemma strip_all_space: "\<forall>c\<in>set q. py_isspace c \<Longrightarrow> py_strip q = []"
  by (simp add: py_strip_def dropWhile_all)

lemma strip_prefix_of_sentinel:
  assumes w: "py_strip w = error_message" and q: "prefix q w"
  shows "py_strip q = error_message \<or>
         (length (py_strip q) \<le> length error_message \<and>
          prefix (filter (\<lambda>c. \<not> py_isspace c) (py_strip q)) error_message)"
proof (cases "\<forall>c\<in>set q. py_isspace c")
  case True
  then show ?thesis by (simp add: strip_all_space)
next
  case False
  from q obtain r where r: "w = q @ r" by (auto simp: prefix_def)
  let ?q' = "dropWhile py_isspace q"
  from False have dw: "dropWhile py_isspace w = ?q' @ r"
    unfolding r by (auto simp add: dropWhile_append1)
  obtain b where b: "dropWhile py_isspace w = error_message @ b" "\<forall>c\<in>set b. py_isspace c"
    using rstrip_split[of "dropWhile py_isspace w" py_isspace] w
    by (auto simp: py_strip_def)
  from dw b have eq: "?q' @ r = error_message @ b" by simp
  then consider (short) "prefix ?q' error_message"
    | (long) b' where "?q' = error_message @ b'" "prefix b' b"
    by (metis append_eq_append_conv2 prefixI)
  then show ?thesis
  proof cases
    case short
    then have ns: "\<forall>c\<in>set ?q'. \<not> py_isspace c"
      using error_message_nonspace by (auto dest: set_mono_prefix)
    then have "py_strip q = ?q'"
      unfolding py_strip_def by (intro rstrip_keep) (cases ?q' rule: rev_cases; simp)
    with short ns show ?thesis
      by (simp add: prefix_length_le)
  next
    case long
    then have "\<forall>c\<in>set b'. py_isspace c" using b(2) by (auto dest: set_mono_prefix)
    then have "py_strip q = rev (dropWhile py_isspace (rev error_message))"
      unfolding py_strip_def long(1) by (rule rstrip_drop)
    also have "\<dots> = error_message"
      by (intro rstrip_keep) (simp add: error_message_nonspace error_message_nonempty)
    finally show ?thesis by simp
  qed
qed

section \<open>Facts about the effects\<close>

lemmas io_defs = bind_def extern_def pyperclip_paste_def pyperclip_copy_def Controller_def
  kbrd_press_def kbrd_release_def foreground_def emit_def

lemma paste_output_ok:
  "failures s = [] \<Longrightarrow>
   paste_output s =
     (Inr (), s\<lparr>output_queue := [],
                trace := trace s @ [CtrlV (py_rstrip [10] (output_queue s))]\<rparr>)"
  by (simp add: paste_output_def press_ctrl_v_def io_defs)

lemma paste_output_trace:
  "trace (snd (paste_output s)) = trace s \<or>
   trace (snd (paste_output s)) = trace s @ [CtrlV (py_rstrip [10] (output_queue s))]"
  by (simp add: paste_output_def press_ctrl_v_def io_defs split: list.splits option.splits)

lemma paste_output_clipboard:
  "clipboard (snd (paste_output s)) = clipboard s \<or>
   clipboard (snd (paste_output s)) = py_rstrip [10] (output_queue s)"
  by (simp add: paste_output_def press_ctrl_v_def io_defs split: list.splits option.splits)

lemma get_selected_text_ok:
  "failures s = [] \<Longrightarrow>
   get_selected_text s = (Inr (selection s), s\<lparr>trace := trace s @ [CtrlC]\<rparr>)"
  by (simp add: get_selected_text_def press_ctrl_c_def clear_clipboard_def io_defs)

lemma get_selected_text_trace:
  "trace (snd (get_selected_text s)) = trace s \<or>
   trace (snd (get_selected_text s)) = trace s @ [CtrlC]"
  by (simp add: get_selected_text_def press_ctrl_c_def clear_clipboard_def io_defs
           split: list.splits option.splits)

lemma get_selected_text_queue:
  "output_queue (snd (get_selected_text s)) = output_queue s"
  by (simp add: get_selected_text_def press_ctrl_c_def clear_clipboard_def io_defs
           split: list.splits option.splits)

lemma on_hotkey_pressed_ok:
  "current_provider s = Some p \<Longrightarrow> failures s = [] \<Longrightarrow>
   on_hotkey_pressed s =
     s\<lparr>output_queue := [], trace := trace s @ [Cancel p, CtrlC, Popup (selection s)]\<rparr>"
  by (simp add: on_hotkey_pressed_def show_popup_def get_selected_text_ok emit_def)


section \<open>Facts about \<open>replace_text\<close>\<close>

lemma replace_text_str:
  "t \<noteq> [] \<Longrightarrow>
   replace_text (PyStr t) s =
     (let s1 = s\<lparr>output_queue := output_queue s @ t\<rparr>; c = py_strip (output_queue s @ t)
      in if c = error_message then
           emit (ShowMessage (lit ''Error'')
                   (lit ''The text is incompatible with the requested change.'')) s1
         else if length c \<le> length error_message \<and>
                 prefix (filter (\<lambda>x. \<not> py_isspace x) c) error_message
         then s1
         else snd (paste_output s1))"
  by (simp add: replace_text_def Let_def collapse_filter filter_error_message take_length_prefix
           del: map_map)

lemma replace_text_noop: "v = PyStr [] \<or> \<not> isinstance_str v \<Longrightarrow> replace_text v s = s"
  by (cases v) (auto simp: replace_text_def)

lemma replace_text_forward:
  assumes "t \<noteq> []" and "py_strip (output_queue s @ t) \<noteq> error_message"
    and "\<not> (length (py_strip (output_queue s @ t)) \<le> length error_message \<and>
            prefix (filter (\<lambda>x. \<not> py_isspace x) (py_strip (output_queue s @ t))) error_message)"
  shows "replace_text (PyStr t) s = snd (paste_output (s\<lparr>output_queue := output_queue s @ t\<rparr>))"
  using assms by (auto simp add: replace_text_str Let_def)

lemma replace_text_report:
  assumes "t \<noteq> []" and "py_strip (output_queue s @ t) = error_message"
  shows "replace_text (PyStr t) s =
         s\<lparr>output_queue := output_queue s @ t,
           trace := trace s @ [ShowMessage (lit ''Error'')
                      (lit ''The text is incompatible with the requested change.'')]\<rparr>"
  using assms by (simp add: replace_text_str Let_def emit_def del: list.map map_map)

lemma replace_text_hold:
  assumes "py_strip (output_queue s @ t) \<noteq> error_message"
    and "length (py_strip (output_queue s @ t)) \<le> length error_message"
    and "prefix (filter (\<lambda>x. \<not> py_isspace x) (py_strip (output_queue s @ t))) error_message"
  shows "replace_text (PyStr t) s = s\<lparr>output_queue := output_queue s @ t\<rparr>"
proof (cases "t = []")
  case True
  then show ?thesis by (simp add: replace_text_noop)
next
  case False
  with assms show ?thesis by (simp add: replace_text_str)
qed

lemma deliver_snoc: "deliver (cs @ [c]) s = replace_text (PyStr c) (deliver cs s)"
  by (simp add: deliver_def)

lemma deliver_Cons: "deliver (c # cs) s = deliver cs (replace_text (PyStr c) s)"
  by (simp add: deliver_def)

lemma reports_snoc:
  "length (filter (\<lambda>k. (cs @ [c]) ! k \<noteq> [] \<and>
                        py_strip (concat (take (Suc k) (cs @ [c]))) = error_message)
             [0..<length (cs @ [c])]) =
   length (filter (\<lambda>k. cs ! k \<noteq> [] \<and> py_strip (concat (take (Suc k) cs)) = error_message)
             [0..<length cs]) +
   (if c \<noteq> [] \<and> py_strip (concat cs @ c) = error_message then 1 else 0)"
proof -
  have "filter (\<lambda>k. (cs @ [c]) ! k \<noteq> [] \<and>
                        py_strip (concat (take (Suc k) (cs @ [c]))) = error_message) [0..<length cs]
      = filter (\<lambda>k. cs ! k \<noteq> [] \<and> py_strip (concat (take (Suc k) cs)) = error_message)
             [0..<length cs]"
    by (rule filter_cong) (auto simp: nth_append)
  then show ?thesis by simp
qed

lemma strip_append_space:
  assumes "py_strip q \<noteq> []" and "\<forall>x\<in>set b. py_isspace x"
  shows "py_strip (q @ b) = py_strip q"
proof -
  from assms(1) have "\<exists>x\<in>set q. \<not> py_isspace x"
    using strip_all_space by blast
  then have "dropWhile py_isspace (q @ b) = dropWhile py_isspace q @ b"
    by (auto simp add: dropWhile_append1)
  then have "py_strip (q @ b) = rev (dropWhile py_isspace (rev (dropWhile py_isspace q @ b)))"
    by (simp only: py_strip_def)
  also have "\<dots> = rev (dropWhile py_isspace (rev (dropWhile py_isspace q)))"
    using assms(2) by (rule rstrip_drop)
  finally show ?thesis by (simp only: py_strip_def)
qed

lemma deliver_within_sentinel:
  assumes "py_strip w = error_message" and "output_queue s = []"
  shows "prefix (concat chunks) w \<Longrightarrow>
     deliver chunks s =
       s\<lparr>output_queue := concat chunks,
         trace := trace s @
           replicate
             (length (filter (\<lambda>k. chunks ! k \<noteq> [] \<and>
                                  py_strip (concat (take (Suc k) chunks)) = error_message)
                        [0..<length chunks]))
             (ShowMessage (lit ''Error'')
                (lit ''The text is incompatible with the requested change.''))\<rparr>"
proof (induction chunks rule: rev_induct)
  case Nil
  then show ?case using assms(2) by (simp add: deliver_def)
next
  case (snoc c cs)
  let ?n = "length (filter (\<lambda>k. cs ! k \<noteq> [] \<and>
                                  py_strip (concat (take (Suc k) cs)) = error_message)
                        [0..<length cs])"
  let ?m = "ShowMessage (lit ''Error'') (lit ''The text is incompatible with the requested change.'')"
  from snoc.prems have p: "prefix (concat cs @ c) w" by simp
  then have "prefix (concat cs) w" by (rule append_prefixD)
  then have ih: "deliver cs s = s\<lparr>output_queue := concat cs, trace := trace s @ replicate ?n ?m\<rparr>"
    by (rule snoc.IH)
  show ?case
  proof (cases "c = []")
    case True
    then show ?thesis
      unfolding deliver_snoc reports_snoc by (simp add: ih replace_text_noop del: list.map map_map)
  next
    case False
    show ?thesis
    proof (cases "py_strip (concat cs @ c) = error_message")
      case True
      with False show ?thesis
        unfolding deliver_snoc reports_snoc
        by (simp add: ih replace_text_report replicate_append_same del: list.map map_map)
    next
      case ne: False
      with strip_prefix_of_sentinel[OF assms(1) p]
      have "length (py_strip (concat cs @ c)) \<le> length error_message"
        "prefix (filter (\<lambda>x. \<not> py_isspace x) (py_strip (concat cs @ c))) error_message"
        by auto
      with ne show ?thesis
        unfolding deliver_snoc reports_snoc
        by (simp add: ih replace_text_hold del: list.map map_map)
    qed
  qed
qed

lemma reports_positive:
  "py_strip (concat chunks) = error_message \<Longrightarrow>
   1 \<le> length (filter (\<lambda>k. chunks ! k \<noteq> [] \<and>
                           py_strip (concat (take (Suc k) chunks)) = error_message)
                 [0..<length chunks])"
proof (induction chunks rule: rev_induct)
  case Nil
  then show ?case by (simp add: py_strip_def error_message_def)
next
  case (snoc c cs)
  show ?case
  proof (cases "c = []")
    case True
    with snoc show ?thesis unfolding reports_snoc by simp
  next
    case False
    with snoc.prems show ?thesis unfolding reports_snoc by simp
  qed
qed

lemma deliver_after_sentinel:
  "py_strip (output_queue s) = error_message \<Longrightarrow>
   \<forall>c\<in>set chunks. \<forall>x\<in>set c. py_isspace x \<Longrightarrow>
   deliver chunks s =
     s\<lparr>output_queue := output_queue s @ concat chunks,
       trace := trace s @
         replicate (length (filter (\<lambda>c. c \<noteq> []) chunks))
           (ShowMessage (lit ''Error'')
              (lit ''The text is incompatible with the requested change.''))\<rparr>"
proof (induction chunks arbitrary: s)
  case Nil
  then show ?case by (simp add: deliver_def)
next
  case (Cons c cs)
  show ?case
  proof (cases "c = []")
    case True
    with Cons show ?thesis
      by (simp add: deliver_Cons replace_text_noop del: list.map map_map)
  next
    case False
    let ?s' = "replace_text (PyStr c) s"
    from Cons.prems have "py_strip (output_queue s @ c) = error_message"
      by (simp add: strip_append_space error_message_nonempty)
    with False have r: "?s' = s\<lparr>output_queue := output_queue s @ c,
           trace := trace s @ [ShowMessage (lit ''Error'')
                      (lit ''The text is incompatible with the requested change.'')]\<rparr>"
      by (simp add: replace_text_report)
    then have "py_strip (output_queue ?s') = error_message"
      using \<open>py_strip (output_queue s @ c) = error_message\<close> by simp
    moreover from Cons.prems have "\<forall>c\<in>set cs. \<forall>x\<in>set c. py_isspace x" by simp
    ultimately have "deliver cs ?s' = ?s'\<lparr>output_queue := output_queue ?s' @ concat cs,
       trace := trace ?s' @
         replicate (length (filter (\<lambda>c. c \<noteq> []) cs))
           (ShowMessage (lit ''Error'')
              (lit ''The text is incompatible with the requested change.''))\<rparr>"
      by (rule Cons.IH)
    with False show ?thesis
      unfolding deliver_Cons by (simp add: r replicate_app_Cons_same del: list.map map_map)
  qed
qed

lemma deliver_since_paste:
  "failures s = [] \<Longrightarrow>
   deliver chunks s =
     s\<lparr>output_queue := fst (since_paste (output_queue s) chunks),
       trace := trace s @ snd (since_paste (output_queue s) chunks)\<rparr>"
proof (induction chunks arbitrary: s)
  case Nil
  then show ?case by (simp add: deliver_def)
next
  case (Cons c cs)
  let ?q = "output_queue s @ c"
  let ?s' = "replace_text (PyStr c) s"
  consider (empty) "c = []"
    | (report) "c \<noteq> []" "py_strip ?q = error_message"
    | (hold) "c \<noteq> []" "py_strip ?q \<noteq> error_message"
        "length (py_strip ?q) \<le> length error_message \<and>
         prefix (filter (\<lambda>x. \<not> py_isspace x) (py_strip ?q)) error_message"
    | (forward) "c \<noteq> []" "py_strip ?q \<noteq> error_message"
        "\<not> (length (py_strip ?q) \<le> length error_message \<and>
            prefix (filter (\<lambda>x. \<not> py_isspace x) (py_strip ?q)) error_message)"
    by blast
  then show ?case
  proof cases
    case empty
    then have "?s' = s" by (simp add: replace_text_noop)
    with empty Cons show ?thesis
      by (simp add: deliver_Cons del: list.map map_map)
  next
    case report
    then have r: "?s' = s\<lparr>output_queue := ?q,
           trace := trace s @ [ShowMessage (lit ''Error'')
                      (lit ''The text is incompatible with the requested change.'')]\<rparr>"
      by (simp add: replace_text_report)
    then have "failures ?s' = []" using Cons.prems by simp
    then have "deliver cs ?s' =
        ?s'\<lparr>output_queue := fst (since_paste (output_queue ?s') cs),
            trace := trace ?s' @ snd (since_paste (output_queue ?s') cs)\<rparr>"
      by (rule Cons.IH)
    with report show ?thesis
      unfolding deliver_Cons by (simp add: r del: list.map map_map)
  next
    case hold
    then have r: "?s' = s\<lparr>output_queue := ?q\<rparr>"
      by (simp add: replace_text_hold)
    then have "failures ?s' = []" using Cons.prems by simp
    then have "deliver cs ?s' =
        ?s'\<lparr>output_queue := fst (since_paste (output_queue ?s') cs),
            trace := trace ?s' @ snd (since_paste (output_queue ?s') cs)\<rparr>"
      by (rule Cons.IH)
    with hold show ?thesis
      unfolding deliver_Cons by (simp add: r del: list.map map_map)
  next
    case forward
    then have r: "?s' = s\<lparr>output_queue := [],
           trace := trace s @ [CtrlV (py_rstrip [10] ?q)]\<rparr>"
      using Cons.prems by (simp add: replace_text_forward paste_output_ok)
    then have "failures ?s' = []" using Cons.prems by simp
    then have "deliver cs ?s' =
        ?s'\<lparr>output_queue := fst (since_paste (output_queue ?s') cs),
            trace := trace ?s' @ snd (since_paste (output_queue ?s') cs)\<rparr>"
      by (rule Cons.IH)
    with forward show ?thesis
      unfolding deliver_Cons by (auto simp add: r simp del: list.map map_map)
  qed
qed

lemma since_paste_suffix:
  "fst (since_paste q chunks) = q @ concat chunks \<or>
   (\<exists>k\<le>length chunks. fst (since_paste q chunks) = concat (drop k chunks))"
proof (induction chunks arbitrary: q)
  case Nil
  then show ?case by simp
next
  case (Cons c cs)
  have fwd: "fst (since_paste [] cs) = concat (drop 0 cs) \<or>
      (\<exists>k\<le>length cs. fst (since_paste [] cs) = concat (drop k cs))"
    using Cons.IH[of "[]"] by simp
  then have "\<exists>k\<le>length (c # cs). fst (since_paste [] cs) = concat (drop k (c # cs))"
  proof
    assume "fst (since_paste [] cs) = concat (drop 0 cs)"
    then have "fst (since_paste [] cs) = concat (drop (Suc 0) (c # cs))" by simp
    then show ?thesis by (intro exI[of _ "Suc 0"]) simp
  next
    assume "\<exists>k\<le>length cs. fst (since_paste [] cs) = concat (drop k cs)"
    then obtain k where "k \<le> length cs" "fst (since_paste [] cs) = concat (drop k cs)"
      by blast
    then show ?thesis by (intro exI[of _ "Suc k"]) simp
  qed
  moreover have "fst (since_paste (q @ c) cs) = q @ concat (c # cs) \<or>
      (\<exists>k\<le>length (c # cs). fst (since_paste (q @ c) cs) = concat (drop k (c # cs)))"
    using Cons.IH[of "q @ c"]
  proof
    assume "fst (since_paste (q @ c) cs) = (q @ c) @ concat cs"
    then show ?thesis by simp
  next
    assume "\<exists>k\<le>length cs. fst (since_paste (q @ c) cs) = concat (drop k cs)"
    then obtain k where "k \<le> length cs" "fst (since_paste (q @ c) cs) = concat (drop k cs)"
      by blast
    then have "Suc k \<le> length (c # cs) \<and>
        fst (since_paste (q @ c) cs) = concat (drop (Suc k) (c # cs))" by simp
    then show ?thesis by blast
  qed
  moreover have "c = [] \<Longrightarrow> fst (since_paste q cs) = q @ concat (c # cs) \<or>
      (\<exists>k\<le>length (c # cs). fst (since_paste q cs) = concat (drop k (c # cs)))"
    using Cons.IH[of q]
  proof
    assume "c = []" "fst (since_paste q cs) = q @ concat cs"
    then show ?thesis by simp
  next
    assume "\<exists>k\<le>length cs. fst (since_paste q cs) = concat (drop k cs)"
    then obtain k where "k \<le> length cs" "fst (since_paste q cs) = concat (drop k cs)"
      by blast
    then have "Suc k \<le> length (c # cs) \<and>
        fst (since_paste q cs) = concat (drop (Suc k) (c # cs))" by simp
    then show ?thesis by blast
  qed
  ultimately show ?case by (simp del: list.map map_map concat.simps drop_Suc_Cons list.size)
qed

lemma rstrip_newlines:
  "\<exists>n. q = py_rstrip [10] q @ replicate n 10"
proof -
  obtain b where b: "q = py_rstrip [10] q @ b" "\<forall>c\<in>set b. c \<in> set [10::nat]"
    using rstrip_split[of q "\<lambda>c. c \<in> set [10]"] by (auto simp: py_rstrip_def)
  then have "b = replicate (length b) 10"
    by (simp add: replicate_length_same)
  with b(1) show ?thesis by metis
qed

lemma rstrip_last: "py_rstrip [10] q \<noteq> [] \<Longrightarrow> last (py_rstrip [10] q) \<noteq> 10"
  using hd_dropWhile[of "\<lambda>c. c \<in> set [10::nat]" "rev q"]
  by (simp add: py_rstrip_def last_rev)

section \<open>The claims\<close>

subsection \<open>Streams that spell the error message\<close>

text \<open>
  C1 (as amended). For every sequence of chunks whose concatenation, stripped, is the error
  message, delivering the chunks in order to \<open>replace_text\<close>, starting from an empty output
  queue, pastes nothing: the only new events are error notifications, the clipboard and the
  failure schedule are untouched, and the queue holds the concatenation. There is one
  notification for every non-empty chunk whose arrival leaves the stripped queue equal to the
  error message, hence at least one; there is exactly one only when no non-empty chunk
  follows the chunk that completes the message.
\<close>

theorem sentinel_stream_reports_without_paste:
  assumes "output_queue s = []" and "py_strip (concat chunks) = error_message"
  shows "deliver chunks s =
       s\<lparr>output_queue := concat chunks,
         trace := trace s @
           replicate
             (length (filter (\<lambda>k. chunks ! k \<noteq> [] \<and>
                                  py_strip (concat (take (Suc k) chunks)) = error_message)
                        [0..<length chunks]))
             (ShowMessage (lit ''Error'')
                (lit ''The text is incompatible with the requested change.''))\<rparr> \<and>
     1 \<le> length (filter (\<lambda>k. chunks ! k \<noteq> [] \<and>
                           py_strip (concat (take (Suc k) chunks)) = error_message)
                 [0..<length chunks])"
  using deliver_within_sentinel[OF assms(2,1), of chunks] reports_positive[OF assms(2)]
  by simp

text \<open>The message split over two chunks, with a space before it and a newline after it.\<close>

theorem sentinel_stream_reports_without_paste_witness:
  "output_queue \<lparr>output_queue = [], current_provider = Some Gemini15FlashProvider,
      clipboard = lit ''old'', selection = [], trace = [], failures = []\<rparr> = [] \<and>
   py_strip (concat [lit '' ERROR_TEXT'', lit ''_INCOMPATIBLE_WITH_REQUEST'' @ [10]]) =
     error_message \<and>
   deliver [lit '' ERROR_TEXT'', lit ''_INCOMPATIBLE_WITH_REQUEST'' @ [10]]
     \<lparr>output_queue = [], current_provider = Some Gemini15FlashProvider,
      clipboard = lit ''old'', selection = [], trace = [], failures = []\<rparr> =
   \<lparr>output_queue = lit '' ERROR_TEXT_INCOMPATIBLE_WITH_REQUEST'' @ [10],
    current_provider = Some Gemini15FlashProvider,
    clipboard = lit ''old'', selection = [],
    trace = [ShowMessage (lit ''Error'')
               (lit ''The text is incompatible with the requested change.'')],
    failures = []\<rparr>"
proof -
  let ?s = "\<lparr>output_queue = [], current_provider = Some Gemini15FlashProvider,
      clipboard = lit ''old'', selection = [], trace = [], failures = []\<rparr>"
  let ?chunks = "[lit '' ERROR_TEXT'', lit ''_INCOMPATIBLE_WITH_REQUEST'' @ [10]]"
  have h1: "output_queue ?s = []" by simp
  have h2: "py_strip (concat ?chunks) = error_message"
    by (simp add: py_strip_def py_isspace_def error_message_def)
  show ?thesis
    using sentinel_stream_reports_without_paste[OF h1 h2] h2
    by (simp add: py_strip_def py_isspace_def error_message_def)
qed

text \<open>
  The claim as stated, with exactly one notification, fails when whitespace after the message
  comes in a chunk of its own: the message, then a space, gives two notifications.
\<close>

theorem sentinel_then_space_reports_twice:
  "py_strip (concat [lit ''ERROR_TEXT_INCOMPATIBLE_WITH_REQUEST'', lit '' '']) = error_message \<and>
   trace (deliver [lit ''ERROR_TEXT_INCOMPATIBLE_WITH_REQUEST'', lit '' '']
     \<lparr>output_queue = [], current_provider = Some Gemini15FlashProvider,
      clipboard = lit ''old'', selection = [], trace = [], failures = []\<rparr>) =
   [ShowMessage (lit ''Error'') (lit ''The text is incompatible with the requested change.''),
    ShowMessage (lit ''Error'') (lit ''The text is incompatible with the requested change.'')]"
  by (simp add: deliver_def replace_text_def error_message_def py_strip_def py_isspace_def
        emit_def)

subsection \<open>Chunks after the error message\<close>

text \<open>
  C2 (as amended). Once the stripped output queue equals the error message, no later chunk
  causes a paste as long as the later chunks consist of whitespace only: each non-empty one
  of them is appended to the queue and gives one more error notification, and nothing else
  changes.
\<close>

theorem whitespace_after_sentinel_never_pasted:
  assumes "py_strip (output_queue s) = error_message"
    and "\<forall>c\<in>set chunks. \<forall>x\<in>set c. py_isspace x"
  shows "deliver chunks s =
     s\<lparr>output_queue := output_queue s @ concat chunks,
       trace := trace s @
         replicate (length (filter (\<lambda>c. c \<noteq> []) chunks))
           (ShowMessage (lit ''Error'')
              (lit ''The text is incompatible with the requested change.''))\<rparr>"
  using assms by (rule deliver_after_sentinel)

theorem whitespace_after_sentinel_never_pasted_witness:
  "py_strip (output_queue \<lparr>output_queue = lit ''ERROR_TEXT_INCOMPATIBLE_WITH_REQUEST'',
      current_provider = Some Gemini15FlashProvider,
      clipboard = lit ''old'', selection = [], trace = [], failures = []\<rparr>) = error_message \<and>
   py_isspace 10 \<and> py_isspace 32 \<and>
   deliver [[10], [], lit '' '']
     \<lparr>output_queue = lit ''ERROR_TEXT_INCOMPATIBLE_WITH_REQUEST'',
      current_provider = Some Gemini15FlashProvider,
      clipboard = lit ''old'', selection = [], trace = [], failures = []\<rparr> =
   \<lparr>output_queue = lit ''ERROR_TEXT_INCOMPATIBLE_WITH_REQUEST'' @ [10, 32],
    current_provider = Some Gemini15FlashProvider,
    clipboard = lit ''old'', selection = [],
    trace = [ShowMessage (lit ''Error'')
               (lit ''The text is incompatible with the requested change.''),
             ShowMessage (lit ''Error'')
               (lit ''The text is incompatible with the requested change.'')],
    failures = []\<rparr>"
proof -
  let ?s = "\<lparr>output_queue = lit ''ERROR_TEXT_INCOMPATIBLE_WITH_REQUEST'',
      current_provider = Some Gemini15FlashProvider,
      clipboard = lit ''old'', selection = [], trace = [], failures = []\<rparr>"
  have h1: "py_strip (output_queue ?s) = error_message"
    by (simp add: py_strip_def py_isspace_def error_message_def)
  have h2: "\<forall>c\<in>set [[10], [], lit '' '']. \<forall>x\<in>set c. py_isspace x"
    by (simp add: py_isspace_def)
  have h3: "py_isspace 10 \<and> py_isspace 32"
    by (simp add: py_isspace_def)
  show ?thesis
    using whitespace_after_sentinel_never_pasted[OF h1 h2] h1 h3 by simp
qed

text \<open>
  The claim as stated fails for a later chunk with a character that is not whitespace: the
  queue still holds the error message, and the chunk is pasted together with it.
\<close>

theorem text_after_sentinel_is_pasted:
  "py_strip (concat [lit ''ERROR_TEXT_INCOMPATIBLE_WITH_REQUEST'']) = error_message \<and>
   trace (deliver [lit ''ERROR_TEXT_INCOMPATIBLE_WITH_REQUEST'', lit ''X'']
     \<lparr>output_queue = [], current_provider = Some Gemini15FlashProvider,
      clipboard = lit ''old'', selection = [], trace = [], failures = []\<rparr>) =
   [ShowMessage (lit ''Error'') (lit ''The text is incompatible with the requested change.''),
    CtrlV (lit ''ERROR_TEXT_INCOMPATIBLE_WITH_REQUESTX'')]"
  by (simp add: deliver_def replace_text_def error_message_def py_strip_def py_isspace_def
        py_split_def py_rstrip_def paste_output_def press_ctrl_v_def io_defs)

subsection \<open>Chunks of a cancelled request\<close>




subsection \<open>Chunks after a paste\<close>

text \<open>
  C4 (as amended). When a chunk is forwarded (its stripped queue is neither the error message
  nor, at a length up to that of the error message, a prefix of it once whitespace is removed)
  and no call fails, the output queue is empty afterwards, and every chunk that follows, however
  many there are, is decided afresh on the text accumulated since the last paste, by the rule
  \<open>since_paste\<close>: an empty chunk does nothing; a chunk that leaves the accumulated text,
  stripped, equal to the error message is reported and the text kept; a chunk that leaves it
  a prefix of the error message (a text of whitespace is one) is held back and the text kept;
  every other chunk has the whole accumulated text pasted at once, and the accumulated text
  starts again from nothing. In particular the output queue is always the concatenation of a
  final part of the chunks that followed, and the clipboard is as it was.
\<close>

theorem after_forward_chunks_decided_afresh:
  assumes "failures s = []" and "chunk \<noteq> []"
    and "py_strip (output_queue s @ chunk) \<noteq> error_message"
    and "\<not> (length (py_strip (output_queue s @ chunk)) \<le> length error_message \<and>
            prefix (filter (\<lambda>x. \<not> py_isspace x) (py_strip (output_queue s @ chunk)))
              error_message)"
  shows "output_queue (replace_text (PyStr chunk) s) = [] \<and>
         deliver chunks (replace_text (PyStr chunk) s) =
           (replace_text (PyStr chunk) s)
             \<lparr>output_queue := fst (since_paste [] chunks),
              trace := trace (replace_text (PyStr chunk) s) @ snd (since_paste [] chunks)\<rparr> \<and>
         (\<exists>k\<le>length chunks.
            output_queue (deliver chunks (replace_text (PyStr chunk) s)) =
              concat (drop k chunks))"
proof -
  let ?s' = "replace_text (PyStr chunk) s"
  have r: "?s' = s\<lparr>output_queue := [],
              trace := trace s @ [CtrlV (py_rstrip [10] (output_queue s @ chunk))]\<rparr>"
    using assms by (simp add: replace_text_forward paste_output_ok)
  then have q: "output_queue ?s' = []" and f: "failures ?s' = []"
    using assms(1) by simp_all
  have d: "deliver chunks ?s' =
      ?s'\<lparr>output_queue := fst (since_paste [] chunks),
          trace := trace ?s' @ snd (since_paste [] chunks)\<rparr>"
    using deliver_since_paste[OF f, of chunks] q by simp
  have "\<exists>k\<le>length chunks. fst (since_paste [] chunks) = concat (drop k chunks)"
    using since_paste_suffix[of "[]" chunks] by auto
  then have "\<exists>k\<le>length chunks. output_queue (deliver chunks ?s') = concat (drop k chunks)"
    by (simp add: d)
  with q d show ?thesis by blast
qed

text \<open>
  After \<open>Hello\<close> has been pasted, \<open>E\<close> and \<open>R\<close> are held back, and \<open>X\<close> has all three
  pasted together; the space that follows is held back again.
\<close>

theorem after_forward_chunks_decided_afresh_witness:
  "failures \<lparr>output_queue = [], current_provider = Some Gemini15FlashProvider,
      clipboard = lit ''old'', selection = [], trace = [], failures = []\<rparr> = [] \<and>
   lit ''Hello'' \<noteq> [] \<and>
   py_strip ([] @ lit ''Hello'') \<noteq> error_message \<and>
   \<not> (length (py_strip ([] @ lit ''Hello'')) \<le> length error_message \<and>
      prefix (filter (\<lambda>x. \<not> py_isspace x) (py_strip ([] @ lit ''Hello''))) error_message) \<and>
   since_paste [] [lit ''E'', lit ''R'', lit ''X'', lit '' ''] =
     (lit '' '', [CtrlV (lit ''ERX'')]) \<and>
   deliver [lit ''E'', lit ''R'', lit ''X'', lit '' ''] (replace_text (PyStr (lit ''Hello''))
     \<lparr>output_queue = [], current_provider = Some Gemini15FlashProvider,
      clipboard = lit ''old'', selection = [], trace = [], failures = []\<rparr>) =
   \<lparr>output_queue = lit '' '', current_provider = Some Gemini15FlashProvider,
    clipboard = lit ''old'', selection = [],
    trace = [CtrlV (lit ''Hello''), CtrlV (lit ''ERX'')], failures = []\<rparr>"
proof -
  let ?s = "\<lparr>output_queue = [], current_provider = Some Gemini15FlashProvider,
      clipboard = lit ''old'', selection = [], trace = [], failures = []\<rparr>"
  have h1: "failures ?s = []" by simp
  have h2: "lit ''Hello'' \<noteq> []" by simp
  have h3: "py_strip (output_queue ?s @ lit ''Hello'') \<noteq> error_message"
    by (simp add: py_strip_def py_isspace_def error_message_def)
  have h4: "\<not> (length (py_strip (output_queue ?s @ lit ''Hello'')) \<le> length error_message \<and>
      prefix (filter (\<lambda>x. \<not> py_isspace x) (py_strip (output_queue ?s @ lit ''Hello'')))
        error_message)"
    by (simp add: py_strip_def py_isspace_def error_message_def)
  have n: "since_paste [] [lit ''E'', lit ''R'', lit ''X'', lit '' ''] =
     (lit '' '', [CtrlV (lit ''ERX'')])"
    by (simp add: py_strip_def py_isspace_def error_message_def py_rstrip_def)
  have p: "replace_text (PyStr (lit ''Hello'')) ?s =
     \<lparr>output_queue = [], current_provider = Some Gemini15FlashProvider,
      clipboard = lit ''old'', selection = [], trace = [CtrlV (lit ''Hello'')],
      failures = []\<rparr>"
    by (simp add: replace_text_def error_message_def py_strip_def py_isspace_def
        py_split_def py_rstrip_def paste_output_def press_ctrl_v_def io_defs)
  show ?thesis
    using after_forward_chunks_decided_afresh[OF h1 h2 h3 h4,
        of "[lit ''E'', lit ''R'', lit ''X'', lit '' '']"] h3 h4
    unfolding n p by simp
qed

text \<open>
  The claim as stated fails: after \<open>Hello\<close> has been pasted, the chunk \<open>E\<close> is checked
  against the error message again and is held back in the queue.
\<close>

theorem chunk_after_forward_is_held:
  "trace (deliver [lit ''Hello'', lit ''E'']
     \<lparr>output_queue = [], current_provider = Some Gemini15FlashProvider,
      clipboard = lit ''old'', selection = [], trace = [], failures = []\<rparr>) =
     [CtrlV (lit ''Hello'')] \<and>
   output_queue (deliver [lit ''Hello'', lit ''E'']
     \<lparr>output_queue = [], current_provider = Some Gemini15FlashProvider,
      clipboard = lit ''old'', selection = [], trace = [], failures = []\<rparr>) = lit ''E''"
  by (simp add: deliver_def replace_text_def error_message_def py_strip_def py_isspace_def
        py_split_def py_rstrip_def paste_output_def press_ctrl_v_def io_defs)

subsection \<open>Holding back a prefix of the error message\<close>

text \<open>
  C5. When the arrival of a chunk leaves the stripped output queue no longer than the error
  message, different from it, and a prefix of it once all whitespace is removed,
  \<open>replace_text\<close> only appends the chunk to the queue: nothing is pasted, no notification is
  emitted, the clipboard is untouched.
\<close>

theorem hold_keeps_chunk:
  assumes "py_strip (output_queue s @ chunk) \<noteq> error_message"
    and "length (py_strip (output_queue s @ chunk)) \<le> length error_message"
    and "prefix (filter (\<lambda>x. \<not> py_isspace x) (py_strip (output_queue s @ chunk))) error_message"
  shows "replace_text (PyStr chunk) s = s\<lparr>output_queue := output_queue s @ chunk\<rparr>"
proof (cases "chunk = []")
  case True
  then show ?thesis by (simp add: replace_text_noop)
next
  case False
  with assms show ?thesis by (simp add: replace_text_str)
qed

theorem hold_keeps_chunk_witness:
  "py_strip (lit '' ERROR_'' @ lit ''TE XT'') \<noteq> error_message \<and>
   length (py_strip (lit '' ERROR_'' @ lit ''TE XT'')) \<le> length error_message \<and>
   prefix (filter (\<lambda>x. \<not> py_isspace x) (py_strip (lit '' ERROR_'' @ lit ''TE XT'')))
     error_message \<and>
   replace_text (PyStr (lit ''TE XT''))
     \<lparr>output_queue = lit '' ERROR_'', current_provider = Some Gemini15FlashProvider,
      clipboard = lit ''old'', selection = [], trace = [], failures = []\<rparr> =
   \<lparr>output_queue = lit '' ERROR_TE XT'', current_provider = Some Gemini15FlashProvider,
    clipboard = lit ''old'', selection = [], trace = [], failures = []\<rparr>"
proof -
  let ?s = "\<lparr>output_queue = lit '' ERROR_'', current_provider = Some Gemini15FlashProvider,
      clipboard = lit ''old'', selection = [], trace = [], failures = []\<rparr>"
  have h1: "py_strip (output_queue ?s @ lit ''TE XT'') \<noteq> error_message"
    by (simp add: py_strip_def py_isspace_def error_message_def)
  have h2: "length (py_strip (output_queue ?s @ lit ''TE XT'')) \<le> length error_message"
    by (simp add: py_strip_def py_isspace_def error_message_def)
  have h3: "prefix (filter (\<lambda>x. \<not> py_isspace x) (py_strip (output_queue ?s @ lit ''TE XT'')))
     error_message"
    by (simp add: py_strip_def py_isspace_def error_message_def)
  show ?thesis
    using hold_keeps_chunk[OF h1 h2 h3] h1 h2 h3 by simp
qed

subsection \<open>What is pasted\<close>

text \<open>
  C6. When a chunk is forwarded, the text that is put on the clipboard and pasted is the
  whole output queue with the chunk appended, unstripped, without its trailing newline
  characters and nothing else: the queue is that text followed by newlines only, and the text
  is not empty and does not end in a newline. With no failing call exactly this one paste happens; when a call
  fails, either this paste or none has happened, and the clipboard holds this text or what it
  held before.
\<close>

theorem forward_pastes_queue_without_trailing_newlines:
  assumes "chunk \<noteq> []"
    and "py_strip (output_queue s @ chunk) \<noteq> error_message"
    and "\<not> (length (py_strip (output_queue s @ chunk)) \<le> length error_message \<and>
            prefix (filter (\<lambda>x. \<not> py_isspace x) (py_strip (output_queue s @ chunk)))
              error_message)"
  shows "(trace (replace_text (PyStr chunk) s) = trace s \<or>
          trace (replace_text (PyStr chunk) s) =
            trace s @ [CtrlV (py_rstrip [10] (output_queue s @ chunk))]) \<and>
         (clipboard (replace_text (PyStr chunk) s) = clipboard s \<or>
          clipboard (replace_text (PyStr chunk) s) = py_rstrip [10] (output_queue s @ chunk)) \<and>
         (failures s = [] \<longrightarrow>
          trace (replace_text (PyStr chunk) s) =
            trace s @ [CtrlV (py_rstrip [10] (output_queue s @ chunk))]) \<and>
         (\<exists>n. output_queue s @ chunk =
                py_rstrip [10] (output_queue s @ chunk) @ replicate n 10) \<and>
         py_rstrip [10] (output_queue s @ chunk) \<noteq> [] \<and>
         last (py_rstrip [10] (output_queue s @ chunk)) \<noteq> 10"
proof -
  let ?s1 = "s\<lparr>output_queue := output_queue s @ chunk\<rparr>"
  have ne: "py_rstrip [10] (output_queue s @ chunk) \<noteq> []"
  proof
    assume e: "py_rstrip [10] (output_queue s @ chunk) = []"
    obtain n where "output_queue s @ chunk = replicate n 10"
      using rstrip_newlines[of "output_queue s @ chunk"] e by auto
    then have "\<forall>x\<in>set (output_queue s @ chunk). py_isspace x"
      by (simp add: py_isspace_def)
    then have "py_strip (output_queue s @ chunk) = []"
      by (rule strip_all_space)
    with assms(3) show False by simp
  qed
  have r: "replace_text (PyStr chunk) s = snd (paste_output ?s1)"
    using assms by (simp add: replace_text_forward)
  have "trace (replace_text (PyStr chunk) s) = trace s \<or>
        trace (replace_text (PyStr chunk) s) =
          trace s @ [CtrlV (py_rstrip [10] (output_queue s @ chunk))]"
    using paste_output_trace[of ?s1] by (simp add: r)
  moreover have "clipboard (replace_text (PyStr chunk) s) = clipboard s \<or>
        clipboard (replace_text (PyStr chunk) s) = py_rstrip [10] (output_queue s @ chunk)"
    using paste_output_clipboard[of ?s1] by (simp add: r)
  moreover have "failures s = [] \<longrightarrow>
        trace (replace_text (PyStr chunk) s) =
          trace s @ [CtrlV (py_rstrip [10] (output_queue s @ chunk))]"
    by (simp add: r paste_output_ok)
  ultimately show ?thesis
    using rstrip_newlines[of "output_queue s @ chunk"] rstrip_last[OF ne] ne
    by blast
qed

theorem forward_pastes_queue_without_trailing_newlines_witness:
  "lit ''world'' @ [10, 10] \<noteq> [] \<and>
   py_strip (lit '' Hello,  '' @ lit ''world'' @ [10, 10]) \<noteq> error_message \<and>
   \<not> (length (py_strip (lit '' Hello,  '' @ lit ''world'' @ [10, 10])) \<le> length error_message \<and>
      prefix (filter (\<lambda>x. \<not> py_isspace x) (py_strip (lit '' Hello,  '' @ lit ''world'' @ [10, 10])))
        error_message) \<and>
   trace (replace_text (PyStr (lit ''world'' @ [10, 10]))
     \<lparr>output_queue = lit '' Hello,  '', current_provider = Some Gemini15FlashProvider,
      clipboard = lit ''old'', selection = [], trace = [], failures = []\<rparr>) =
     [CtrlV (lit '' Hello,  world'')]"
proof -
  let ?s = "\<lparr>output_queue = lit '' Hello,  '', current_provider = Some Gemini15FlashProvider,
      clipboard = lit ''old'', selection = [], trace = [], failures = []\<rparr>"
  let ?c = "lit ''world'' @ [10, 10]"
  have h1: "?c \<noteq> []" by simp
  have h2: "py_strip (output_queue ?s @ ?c) \<noteq> error_message"
    by (simp add: py_strip_def py_isspace_def error_message_def)
  have h3: "\<not> (length (py_strip (output_queue ?s @ ?c)) \<le> length error_message \<and>
      prefix (filter (\<lambda>x. \<not> py_isspace x) (py_strip (output_queue ?s @ ?c))) error_message)"
    by (simp add: py_strip_def py_isspace_def error_message_def)
  have h4: "py_rstrip [10] (output_queue ?s @ ?c) = lit '' Hello,  world''"
    by (simp add: py_rstrip_def)
  show ?thesis
    using forward_pastes_queue_without_trailing_newlines[OF h1 h2 h3] h2 h3
    unfolding h4 by simp
qed

subsection \<open>The clipboard\<close>

text \<open>
  C7 (as amended). When no call into the clipboard or the keyboard fails, the clipboard holds
  after \<open>get_selected_text\<close> and after \<open>replace_text\<close> (for every argument, on every branch)
  what it held before.
\<close>

theorem clipboard_restored_without_failure:
  assumes "failures s = []"
  shows "clipboard (snd (get_selected_text s)) = clipboard s \<and>
         clipboard (replace_text new_text s) = clipboard s"
proof -
  have "clipboard (replace_text new_text s) = clipboard s"
  proof (cases "new_text = PyStr [] \<or> \<not> isinstance_str new_text")
    case True
    then show ?thesis by (simp add: replace_text_noop)
  next
    case False
    then obtain t where "new_text = PyStr t" "t \<noteq> []"
      by (cases new_text) auto
    then show ?thesis
      using assms by (simp add: replace_text_str Let_def paste_output_ok emit_def)
  qed
  then show ?thesis
    using assms by (simp add: get_selected_text_ok)
qed

theorem clipboard_restored_without_failure_witness:
  "failures \<lparr>output_queue = [], current_provider = Some Gemini15FlashProvider,
      clipboard = lit ''old'', selection = lit ''sel'', trace = [], failures = []\<rparr> = [] \<and>
   clipboard (snd (get_selected_text
     \<lparr>output_queue = [], current_provider = Some Gemini15FlashProvider,
      clipboard = lit ''old'', selection = lit ''sel'', trace = [], failures = []\<rparr>)) =
     lit ''old'' \<and>
   clipboard (replace_text (PyStr (lit ''Hello''))
     \<lparr>output_queue = [], current_provider = Some Gemini15FlashProvider,
      clipboard = lit ''old'', selection = lit ''sel'', trace = [], failures = []\<rparr>) =
     lit ''old''"
proof -
  let ?s = "\<lparr>output_queue = [], current_provider = Some Gemini15FlashProvider,
      clipboard = lit ''old'', selection = lit ''sel'', trace = [], failures = []\<rparr>"
  have h: "failures ?s = []" by simp
  show ?thesis
    using clipboard_restored_without_failure[OF h, of "PyStr (lit ''Hello'')"] by simp
qed

text \<open>
  The claim as stated, for every exit path, fails when a call fails after the clipboard has
  been written: here the press of \<open>v\<close> raises, the handler of \<open>replace_text\<close> logs the
  exception, and the clipboard keeps the text that was to be pasted.
\<close>

theorem clipboard_left_after_keystroke_failure:
  "clipboard (replace_text (PyStr (lit ''Hello''))
     \<lparr>output_queue = [], current_provider = Some Gemini15FlashProvider,
      clipboard = lit ''old'', selection = [], trace = [],
      failures = [None, None, None, None, Some (lit ''key'')]\<rparr>) = lit ''Hello''"
  by (simp add: replace_text_def error_message_def py_strip_def py_isspace_def
        py_split_def py_rstrip_def paste_output_def press_ctrl_v_def io_defs Let_def)

subsection \<open>An empty selection\<close>

text \<open>
  C8. When the selected text is empty or whitespace only and the option is not \<open>Custom\<close>,
  \<open>process_option_thread\<close> emits the message that asks for a selection and does nothing else:
  the provider's \<open>get_response\<close> is not called.
\<close>

theorem empty_selection_reports_without_request:
  assumes "py_strip selected_text = []" and "option \<noteq> lit ''Custom''"
  shows "process_option_thread option selected_text custom_change s =
         s\<lparr>trace := trace s @
             [ShowMessage (lit ''Error'') (lit ''Please select text to use this option.'')]\<rparr>"
  using assms by (simp add: process_option_thread_def emit_def del: map_map list.map)

theorem empty_selection_reports_without_request_witness:
  "py_strip [32, 10] = [] \<and> lit ''Concis'' \<noteq> lit ''Custom'' \<and>
   process_option_thread (lit ''Concis'') [32, 10] None
     \<lparr>output_queue = [], current_provider = Some Gemini15FlashProvider,
      clipboard = lit ''old'', selection = [], trace = [], failures = []\<rparr> =
   \<lparr>output_queue = [], current_provider = Some Gemini15FlashProvider,
    clipboard = lit ''old'', selection = [],
    trace = [ShowMessage (lit ''Error'') (lit ''Please select text to use this option.'')],
    failures = []\<rparr>"
proof -
  have h1: "py_strip [32, 10] = []" by (simp add: py_strip_def py_isspace_def)
  have h2: "lit ''Concis'' \<noteq> lit ''Custom''" by simp
  show ?thesis
    using empty_selection_reports_without_request[OF h1 h2] h1 h2 by simp
qed

subsection \<open>The hotkey\<close>

text \<open>
  C9. When the hotkey is pressed and there is a provider, the first thing that happens is the
  call of \<open>cancel\<close> on it, and the output queue is emptied; everything that follows is the
  capture of the selection (the simulated Ctrl+C) and the popup window, and no request to
  the provider is started. With no failing call the popup window gets the text that is
  selected in the foreground application at that moment.
\<close>

theorem hotkey_cancels_then_captures:
  assumes "current_provider s = Some p"
  shows "output_queue (on_hotkey_pressed s) = [] \<and>
         (\<exists>evs. trace (on_hotkey_pressed s) = trace s @ Cancel p # evs \<and>
                (\<forall>ev\<in>set evs. ev = CtrlC \<or> (\<exists>t. ev = Popup t))) \<and>
         (failures s = [] \<longrightarrow>
          trace (on_hotkey_pressed s) = trace s @ [Cancel p, CtrlC, Popup (selection s)])"
proof -
  let ?s1 = "(emit (Cancel p) s)\<lparr>output_queue := []\<rparr>"
  obtain r s2 where g: "get_selected_text ?s1 = (r, s2)"
    by (cases "get_selected_text ?s1")
  have q: "output_queue s2 = []"
    using get_selected_text_queue[of ?s1] g by simp
  have t: "trace s2 = trace s @ [Cancel p] \<or> trace s2 = trace s @ [Cancel p, CtrlC]"
    using get_selected_text_trace[of ?s1] g by (simp add: emit_def)
  have h: "on_hotkey_pressed s = (case r of Inl e \<Rightarrow> s2 | Inr text \<Rightarrow> emit (Popup text) s2)"
    using assms g by (simp add: on_hotkey_pressed_def show_popup_def)
  have "output_queue (on_hotkey_pressed s) = []"
    using q by (simp add: h emit_def split: sum.splits)
  moreover have "\<exists>evs. trace (on_hotkey_pressed s) = trace s @ Cancel p # evs \<and>
                (\<forall>ev\<in>set evs. ev = CtrlC \<or> (\<exists>t. ev = Popup t))"
    using t by (auto simp add: h emit_def split: sum.splits)
  moreover have "failures s = [] \<longrightarrow>
          trace (on_hotkey_pressed s) = trace s @ [Cancel p, CtrlC, Popup (selection s)]"
    using assms by (simp add: on_hotkey_pressed_ok)
  ultimately show ?thesis by blast
qed

theorem hotkey_cancels_then_captures_witness:
  "current_provider \<lparr>output_queue = lit ''ERROR_TEXT'',
      current_provider = Some Gemini15FlashProvider,
      clipboard = lit ''old'', selection = lit ''sel'', trace = [], failures = []\<rparr> =
     Some Gemini15FlashProvider \<and>
   output_queue (on_hotkey_pressed \<lparr>output_queue = lit ''ERROR_TEXT'',
      current_provider = Some Gemini15FlashProvider,
      clipboard = lit ''old'', selection = lit ''sel'', trace = [], failures = []\<rparr>) = [] \<and>
   trace (on_hotkey_pressed \<lparr>output_queue = lit ''ERROR_TEXT'',
      current_provider = Some Gemini15FlashProvider,
      clipboard = lit ''old'', selection = lit ''sel'', trace = [], failures = []\<rparr>) =
     [Cancel Gemini15FlashProvider, CtrlC, Popup (lit ''sel'')]"
proof -
  let ?s = "\<lparr>output_queue = lit ''ERROR_TEXT'',
      current_provider = Some Gemini15FlashProvider,
      clipboard = lit ''old'', selection = lit ''sel'', trace = [], failures = []\<rparr>"
  have h: "current_provider ?s = Some Gemini15FlashProvider" by simp
  show ?thesis
    using hotkey_cancels_then_captures[OF h] by simp
qed

subsection \<open>Arguments that are ignored\<close>

text \<open>
  C10. \<open>replace_text\<close> called with the empty string or with a value that is not a string
  returns the state as it was: the output queue, the clipboard and the events are unchanged.
\<close>

theorem replace_text_ignores_empty_and_non_string:
  "v = PyStr [] \<or> \<not> isinstance_str v \<Longrightarrow> replace_text v s = s"
  by (cases v) (auto simp: replace_text_def)

theorem replace_text_ignores_empty_and_non_string_witness:
  "\<not> isinstance_str (PyInt 7) \<and>
   replace_text (PyInt 7)
     \<lparr>output_queue = lit ''ERROR_'', current_provider = Some Gemini15FlashProvider,
      clipboard = lit ''old'', selection = [], trace = [], failures = []\<rparr> =
   \<lparr>output_queue = lit ''ERROR_'', current_provider = Some Gemini15FlashProvider,
    clipboard = lit ''old'', selection = [], trace = [], failures = []\<rparr> \<and>
   replace_text (PyStr [])
     \<lparr>output_queue = lit ''ERROR_'', current_provider = Some Gemini15FlashProvider,
      clipboard = lit ''old'', selection = [], trace = [], failures = []\<rparr> =
   \<lparr>output_queue = lit ''ERROR_'', current_provider = Some Gemini15FlashProvider,
    clipboard = lit ''old'', selection = [], trace = [], failures = []\<rparr>"
proof -
  have h1: "PyInt 7 = PyStr [] \<or> \<not> isinstance_str (PyInt 7)" by simp
  have h2: "PyStr [] = PyStr [] \<or> \<not> isinstance_str (PyStr [])" by simp
  show ?thesis
    using replace_text_ignores_empty_and_non_string[OF h1]
      replace_text_ignores_empty_and_non_string[OF h2]
    by simp
qed

end
